theory Spec2Isabelle
  imports Complex_Main
begin

section \<open>Errors and configuration\<close>

text \<open>
  The exceptions that the modelled part of \<^verbatim>\<open>finetune/base.py\<close> can raise.  A function that can
  raise returns a sum, with \<open>Inl\<close> for the exception.
\<close>

datatype error =
  ValueError | IndexError | ZeroDivisionError | AttributeError | TypeError | FileNotFoundError

text \<open>
  The options of \<^verbatim>\<open>self.config\<close> that the modelled code reads.  Lengths and counts are natural
  numbers; \<^verbatim>\<open>val_interval\<close> is an integer because the code takes a remainder by it;
  \<^verbatim>\<open>None\<close> for a path is \<open>None\<close>.  Floating-point options are real numbers.
\<close>

record config =
  max_length :: nat
  batch_size :: nat
  n_epochs :: nat
  val_interval :: int
  val_window_size :: nat
  rolling_avg_decay :: real
  visible_gpus :: "nat list"
  lm_loss_coef :: real
  save_best_model :: bool
  autosave_path :: "string option"
  interpolate_pos_embed :: bool
  n_embed :: nat
  weight_stddev :: real

section \<open>The array encoder adapter (\<^verbatim>\<open>_array_format\<close>)\<close>

text \<open>
  \<^verbatim>\<open>EncodedOutput\<close> of the tokenizer and the \<^verbatim>\<open>ArrayEncodedOutput\<close> built from it.  The array
  \<^verbatim>\<open>x\<close> of shape \<open>(n, max_length, 2)\<close> is a list of rows of pairs (channel 0, channel 1).
\<close>

record encoded_output =
  eo_token_ids :: "int list list"
  eo_tokens :: "string list list"
  eo_labels :: "string list list option"
  eo_char_locs :: "int list list"

record array_encoded_output =
  aeo_token_ids :: "(int \<times> int) list list"
  aeo_tokens :: "string list list"
  aeo_labels :: "string list list option"
  aeo_char_locs :: "int list list"
  aeo_mask :: "real list list"

text \<open>
  numpy's \<^verbatim>\<open>row[:n] = vals\<close>: the slice has \<open>min n (length row)\<close> cells; a value list of that
  length is copied, a value list of length one is broadcast, anything else is a
  \<^verbatim>\<open>ValueError\<close>.
\<close>

definition np_assign_prefix :: "'a list \<Rightarrow> nat \<Rightarrow> 'a list \<Rightarrow> error + 'a list" where
  "np_assign_prefix row n vals =
     (let k = min n (length row) in
      if length vals = k then Inr (vals @ drop k row)
      else if length vals = 1 then Inr (replicate k (hd vals) @ drop k row)
      else Inl ValueError)"

text \<open>numpy's \<^verbatim>\<open>row[lo:hi] = v\<close> for a scalar \<open>v\<close>: every cell of the slice is overwritten.\<close>

definition np_fill_slice :: "'a list \<Rightarrow> nat \<Rightarrow> nat \<Rightarrow> 'a \<Rightarrow> 'a list" where
  "np_fill_slice row lo hi v = fold (\<lambda>j r. r[j := v]) [lo..<min hi (length row)] row"

text \<open>Python's \<^verbatim>\<open>xs[i]\<close> on a list.\<close>

definition py_index :: "'a list \<Rightarrow> nat \<Rightarrow> error + 'a" where
  "py_index xs i = (if i < length xs then Inr (xs ! i) else Inl IndexError)"

text \<open>
  One iteration of the loop over \<^verbatim>\<open>enumerate(seq_lengths)\<close>: channel 0 of row \<open>i\<close> of \<^verbatim>\<open>x\<close>,
  row \<open>i\<close> of \<^verbatim>\<open>mask\<close> and row \<open>i\<close> of \<^verbatim>\<open>labels_arr\<close> (present when the labels are not
  \<^verbatim>\<open>None\<close>, written only when the label list is not empty).
\<close>

definition format_example ::
  "nat \<Rightarrow> string \<Rightarrow> encoded_output \<Rightarrow> nat \<Rightarrow> error + (int list \<times> real list \<times> string list option)" where
  "format_example maxlen pad enc i =
     (let ids = eo_token_ids enc ! i;
          seq_length = length ids
      in case np_assign_prefix (replicate maxlen 0) seq_length ids of
           Inl e \<Rightarrow> Inl e
         | Inr xrow \<Rightarrow>
             (let mrow = np_fill_slice (replicate maxlen 0) 1 seq_length 1
              in case eo_labels enc of
                   None \<Rightarrow> Inr (xrow, mrow, None)
                 | Some ls \<Rightarrow>
                     if ls = [] then Inr (xrow, mrow, Some (replicate maxlen pad))
                     else (case py_index ls i of
                             Inl e \<Rightarrow> Inl e
                           | Inr l \<Rightarrow>
                               (case np_assign_prefix (replicate maxlen pad) seq_length l of
                                  Inl e \<Rightarrow> Inl e
                                | Inr lrow \<Rightarrow> Inr (xrow, mrow, Some lrow)))))"

text \<open>The loop stops at the first iteration that raises.\<close>

fun collect :: "(error + 'a) list \<Rightarrow> error + 'a list" where
  "collect [] = Inr []"
| "collect (Inl e # _) = Inl e"
| "collect (Inr x # rs) = (case collect rs of Inl e \<Rightarrow> Inl e | Inr xs \<Rightarrow> Inr (x # xs))"

text \<open>
  \<^verbatim>\<open>_array_format\<close>.  \<open>vocab_size\<close> is \<^verbatim>\<open>self.encoder.vocab_size\<close> and \<open>pad\<close> is the constant
  \<^verbatim>\<open>PAD_TOKEN\<close> of \<^verbatim>\<open>finetune.config\<close>; both come from modules outside this file and are
  parameters.  After the loop, channel 1 of every row is
  \<^verbatim>\<open>arange(vocab_size, vocab_size + max_length)\<close>.
\<close>

definition array_format :: "config \<Rightarrow> int \<Rightarrow> string \<Rightarrow> encoded_output \<Rightarrow> error + array_encoded_output" where
  "array_format cfg vocab_size pad enc =
     (let n = length (eo_token_ids enc);
          maxlen = max_length cfg
      in case collect (map (format_example maxlen pad enc) [0..<n]) of
           Inl e \<Rightarrow> Inl e
         | Inr rows \<Rightarrow>
             Inr \<lparr> aeo_token_ids =
                     map (\<lambda>r. zip (fst r) (map (\<lambda>j. vocab_size + int j) [0..<maxlen])) rows,
                   aeo_tokens = eo_tokens enc,
                   aeo_labels = (case eo_labels enc of
                                   None \<Rightarrow> None
                                 | Some _ \<Rightarrow> Some (map (\<lambda>r. the (snd (snd r))) rows)),
                   aeo_char_locs = eo_char_locs enc,
                   aeo_mask = map (\<lambda>r. fst (snd r)) rows \<rparr>)"

section \<open>Floating-point values of the validation window\<close>

text \<open>
  The validation window holds Python floats: finite values, \<^verbatim>\<open>float("inf")\<close> and, as the mean
  of an empty window, \<^verbatim>\<open>nan\<close>.  Finite floats are modelled as real numbers (rounding is not
  modelled).  Negative infinity cannot arise: the window only ever holds \<^verbatim>\<open>inf\<close> and sums of
  the observed losses.
\<close>

datatype npfloat = Fin real | PInf | NaN

fun np_add :: "npfloat \<Rightarrow> npfloat \<Rightarrow> npfloat" where
  "np_add (Fin a) (Fin b) = Fin (a + b)"
| "np_add NaN _ = NaN"
| "np_add _ NaN = NaN"
| "np_add _ _ = PInf"

text \<open>\<^verbatim>\<open>np.mean\<close> of a list: \<^verbatim>\<open>nan\<close> for the empty list, the sum divided by the length otherwise.\<close>

definition np_mean :: "npfloat list \<Rightarrow> npfloat" where
  "np_mean xs =
     (if xs = [] then NaN
      else case foldl np_add (Fin 0) xs of
             Fin s \<Rightarrow> Fin (s / real (length xs))
           | PInf \<Rightarrow> PInf
           | NaN \<Rightarrow> NaN)"

text \<open>The comparison \<^verbatim>\<open><=\<close> of floats: false as soon as one side is \<^verbatim>\<open>nan\<close>.\<close>

fun np_le :: "npfloat \<Rightarrow> npfloat \<Rightarrow> bool" where
  "np_le (Fin a) (Fin b) = (a \<le> b)"
| "np_le NaN _ = False"
| "np_le _ NaN = False"
| "np_le _ PInf = True"
| "np_le PInf (Fin _) = False"

section \<open>The training loop controller (\<^verbatim>\<open>_training_loop\<close>, lines 184 to 257)\<close>

text \<open>
  The local variables of the loop.  \<open>saved_at\<close> is a ghost variable: the global steps at which
  \<^verbatim>\<open>self.save(self.config.autosave_path)\<close> wrote a checkpoint.  \<^verbatim>\<open>save\<close> returns at once when
  its path is \<^verbatim>\<open>None\<close> (line 682), so a call with no autosave path writes nothing.
\<close>

record loop_vars =
  avg_train_loss :: "real option"
  avg_val_loss :: "real option"
  global_step :: int
  best_val_loss :: npfloat
  val_window :: "npfloat list"
  saved_at :: "int list"

text \<open>
  What the session returns during one run, a parameter of the model: the number of batches
  that \<^verbatim>\<open>iter_data\<close> yields over the training set in one epoch, the value of the target loss on
  every validation batch of a check made at global step \<open>g\<close>, and its value on the training
  batch of step \<open>g\<close>.
\<close>

record run_env =
  train_batches :: nat
  val_costs :: "int \<Rightarrow> real list"
  train_cost :: "int \<Rightarrow> real"

text \<open>
  \<^verbatim>\<open>outputs.get(self.target_loss, 0)\<close>: when no task head was ever built, \<^verbatim>\<open>self.target_loss\<close> is
  \<^verbatim>\<open>None\<close>, \<^verbatim>\<open>_eval\<close> drops it from its result, and the cost read is 0.
\<close>

definition observed_cost :: "bool \<Rightarrow> real \<Rightarrow> real" where
  "observed_cost target_loss_defined c = (if target_loss_defined then c else 0)"

text \<open>The two exponential moving averages: seeded by the first value.\<close>

definition rolling_avg :: "real \<Rightarrow> real option \<Rightarrow> real \<Rightarrow> real option" where
  "rolling_avg decay avg c =
     (case avg of None \<Rightarrow> Some c | Some a \<Rightarrow> Some (a * decay + c * (1 - decay)))"

text \<open>
  The inner loop over the validation batches (lines 212 to 236): the pair of
  \<^verbatim>\<open>sum_val_loss\<close> and \<^verbatim>\<open>avg_val_loss\<close> after it.
\<close>

definition validation_pass :: "real \<Rightarrow> real option \<Rightarrow> real list \<Rightarrow> real \<times> real option" where
  "validation_pass decay avg costs =
     foldl (\<lambda>(s, a) c. (s + c, rolling_avg decay a c)) (0, avg) costs"

text \<open>
  One validation check (lines 212 to 243): the pass over the validation set, the push into
  the window (\<^verbatim>\<open>append\<close>, then \<^verbatim>\<open>pop(0)\<close>), the comparison of the window mean with the best
  value, and the save.
\<close>

definition val_check :: "config \<Rightarrow> real list \<Rightarrow> loop_vars \<Rightarrow> loop_vars" where
  "val_check cfg costs lv =
     (let (sum_val_loss, avg) = validation_pass (rolling_avg_decay cfg) (avg_val_loss lv) costs;
          window = tl (val_window lv @ [Fin sum_val_loss]);
          lv1 = lv\<lparr>avg_val_loss := avg, val_window := window\<rparr>
      in if np_le (np_mean window) (best_val_loss lv1)
         then lv1\<lparr>best_val_loss := np_mean window,
                  saved_at := saved_at lv1 @
                    (if save_best_model cfg
                     then (case autosave_path cfg of None \<Rightarrow> [] | Some p \<Rightarrow> [global_step lv1])
                     else [])\<rparr>
         else lv1)"

text \<open>
  One iteration of the loop over the training batches (lines 197 to 255).  The remainder
  \<^verbatim>\<open>global_step % val_interval\<close> raises \<^verbatim>\<open>ZeroDivisionError\<close> for a zero interval.
\<close>

definition train_step :: "config \<Rightarrow> run_env \<Rightarrow> bool \<Rightarrow> loop_vars \<Rightarrow> error + loop_vars" where
  "train_step cfg env target_loss_defined lv =
     (let g = global_step lv + 1;
          lv1 = lv\<lparr>global_step := g\<rparr>
      in if val_interval cfg = 0 then Inl ZeroDivisionError
         else
           (let lv2 = (if g mod val_interval cfg = 0
                       then val_check cfg (map (observed_cost target_loss_defined) (val_costs env g)) lv1
                       else lv1);
                cost = observed_cost target_loss_defined (train_cost env g)
            in Inr (lv2\<lparr>avg_train_loss :=
                          rolling_avg (rolling_avg_decay cfg) (avg_train_loss lv2) cost\<rparr>)))"

text \<open>The loop over the batches of one epoch, and the loop over the epochs.\<close>

fun run_batches :: "config \<Rightarrow> run_env \<Rightarrow> bool \<Rightarrow> nat \<Rightarrow> loop_vars \<Rightarrow> error + loop_vars" where
  "run_batches cfg env tld 0 lv = Inr lv"
| "run_batches cfg env tld (Suc n) lv =
     (case train_step cfg env tld lv of
        Inl e \<Rightarrow> Inl e
      | Inr lv' \<Rightarrow> run_batches cfg env tld n lv')"

fun run_epochs :: "config \<Rightarrow> run_env \<Rightarrow> bool \<Rightarrow> nat \<Rightarrow> loop_vars \<Rightarrow> error + loop_vars" where
  "run_epochs cfg env tld 0 lv = Inr lv"
| "run_epochs cfg env tld (Suc k) lv =
     (case run_batches cfg env tld (train_batches env) lv of
        Inl e \<Rightarrow> Inl e
      | Inr lv' \<Rightarrow> run_epochs cfg env tld k lv')"

text \<open>The variables at loop entry (lines 184 to 188).\<close>

definition initial_vars :: "config \<Rightarrow> loop_vars" where
  "initial_vars cfg =
     \<lparr> avg_train_loss = None, avg_val_loss = None, global_step = 0, best_val_loss = PInf,
       val_window = replicate (val_window_size cfg) PInf, saved_at = [] \<rparr>"

text \<open>The loop of lines 184 to 255 as a whole.\<close>

definition training_epochs :: "config \<Rightarrow> run_env \<Rightarrow> bool \<Rightarrow> error + loop_vars" where
  "training_epochs cfg env tld = run_epochs cfg env tld (n_epochs cfg) (initial_vars cfg)"

subsection \<open>The rolling validation window, as the specification describes it\<close>







section \<open>The pretrained weight loader (\<^verbatim>\<open>_load_base_model\<close>)\<close>

text \<open>
  A weight tensor is a list of rows.  The first entry of the returned mask sequence is an
  array, the others are the scalar 1.0.
\<close>

datatype mask_entry = MaskArray "real list list" | MaskScalar real

record base_model =
  init_params :: "real list list list"
  reg_masks :: "mask_entry list"

text \<open>
  What comes from outside \<^verbatim>\<open>base.py\<close>.  \<open>stored_params\<close> is the list \<^verbatim>\<open>init_params\<close> read from the
  parameter files and reshaped (line 621): entry 0 is the positional embedding table, entry 1
  the token embedding table.  \<open>interpolate\<close> is \<^verbatim>\<open>finetune.utils.interpolate_pos_embed\<close>,
  \<open>randn i j\<close> is entry \<open>(i, j)\<close> of the sample that \<^verbatim>\<open>np.random.randn\<close> draws, and
  \<open>n_special_tokens\<close> is \<^verbatim>\<open>len(self.encoder.special_tokens)\<close>.
\<close>

record weights_env =
  stored_params :: "real list list list"
  interpolate :: "real list list \<Rightarrow> nat \<Rightarrow> real list list"
  randn :: "nat \<Rightarrow> nat \<Rightarrow> real"
  n_special_tokens :: nat

definition ones_like :: "real list list \<Rightarrow> real list list" where
  "ones_like m = map (map (\<lambda>_. 1)) m"

definition zeros_like :: "real list list \<Rightarrow> real list list" where
  "zeros_like m = map (map (\<lambda>_. 0)) m"

text \<open>
  \<^verbatim>\<open>special_embed\<close>: a sample of shape \<open>(n_special_tokens, n_embed)\<close>, scaled by
  \<^verbatim>\<open>weight_stddev\<close>.
\<close>

definition special_embed :: "config \<Rightarrow> weights_env \<Rightarrow> real list list" where
  "special_embed cfg wenv =
     map (\<lambda>i. map (\<lambda>j. randn wenv i j * weight_stddev cfg) [0..<n_embed cfg])
       [0..<n_special_tokens wenv]"

text \<open>
  The positional table after lines 623 to 628: interpolated, or refused when \<^verbatim>\<open>max_length\<close>
  exceeds 512, or cut to its first \<^verbatim>\<open>max_length\<close> rows.
\<close>

definition positional_table :: "config \<Rightarrow> weights_env \<Rightarrow> error + real list list" where
  "positional_table cfg wenv =
     (if interpolate_pos_embed cfg
      then (case py_index (stored_params wenv) 0 of
              Inl e \<Rightarrow> Inl e
            | Inr p0 \<Rightarrow> Inr (interpolate wenv p0 (max_length cfg)))
      else if max_length cfg > 512 then Inl ValueError
      else (case py_index (stored_params wenv) 0 of
              Inl e \<Rightarrow> Inl e
            | Inr p0 \<Rightarrow> Inr (take (max_length cfg) p0)))"

text \<open>
  \<^verbatim>\<open>_load_base_model\<close>, from line 623 on.  \<^verbatim>\<open>np.concatenate(\<dots>, 0)\<close> puts the rows of its
  arguments one after the other (numpy's requirement that they have the same number of
  columns is not modelled).
\<close>

definition load_base_model :: "config \<Rightarrow> weights_env \<Rightarrow> error + base_model" where
  "load_base_model cfg wenv =
     (case positional_table cfg wenv of
        Inl e \<Rightarrow> Inl e
      | Inr pos \<Rightarrow>
          (case py_index (stored_params wenv) 1 of
             Inl e \<Rightarrow> Inl e
           | Inr tok \<Rightarrow>
               (let special = special_embed cfg wenv;
                    reg_mask = ones_like tok @ zeros_like special @ ones_like pos;
                    params = (tok @ special @ pos) # drop 2 (stored_params wenv)
                in Inr \<lparr> init_params = params,
                         reg_masks = MaskArray reg_mask #
                                     replicate (length params - 1) (MaskScalar 1) \<rparr>)))"

section \<open>The model object and the graph builder\<close>

text \<open>
  What \<^verbatim>\<open>_construct_graph\<close> decides about the graph it builds: the mode, the target
  dimensionality (no task head when \<open>None\<close>), the language-model loss coefficient it uses, and
  whether the language-model head is compiled.
\<close>

record graph =
  g_train :: bool
  g_target_dim :: "nat option"
  g_lm_loss_coef :: real
  g_compile_lm :: bool

text \<open>The label encoder belongs to the subclass; only what \<^verbatim>\<open>base.py\<close> reads is kept.\<close>

record label_encoder =
  le_classes :: "string list"
  le_target_dim :: "nat option"

text \<open>Where the values of the graph variables come from (a ghost of the session).\<close>

datatype weight_source = NoWeights | Pretrained | RestoredFrom string | Finetuned

text \<open>
  The fields of \<^verbatim>\<open>BaseModel\<close>.  \<open>load_from_file\<close> is \<open>None\<close> for \<^verbatim>\<open>False\<close>; \<open>train\<close> is \<open>None\<close>
  until a graph is built; \<open>sess\<close>, \<open>target_loss_defined\<close> and \<open>lm_predict_op_defined\<close> say
  whether \<^verbatim>\<open>self.sess\<close>, \<^verbatim>\<open>self.target_loss\<close> and \<^verbatim>\<open>self.lm_predict_op\<close> are not \<^verbatim>\<open>None\<close>.  \<open>graph\<close>
  describes the graph built last; \<open>graph_log\<close> and \<open>weights\<close> are ghost fields: every graph
  that \<^verbatim>\<open>_construct_graph\<close> built on this object, oldest first, and the origin of the
  variables' values.
\<close>

record model =
  config :: config
  label_encoder :: "label_encoder option"
  target_dim :: "nat option"
  load_from_file :: "string option"
  is_built :: bool
  is_trained :: bool
  require_lm :: bool
  train :: "bool option"
  sess :: bool
  target_loss_defined :: bool
  lm_predict_op_defined :: bool
  graph :: "graph option"
  graph_log :: "graph list"
  weights :: weight_source

text \<open>\<^verbatim>\<open>_initialize\<close> (lines 63 to 90) and \<^verbatim>\<open>__init__\<close>.\<close>

definition initialize :: "model \<Rightarrow> model" where
  "initialize st =
     st\<lparr> train := None, sess := False, target_loss_defined := False,
         lm_predict_op_defined := False, graph := None,
         is_built := False, is_trained := False, require_lm := False \<rparr>"

definition new_model :: "config \<Rightarrow> model" where
  "new_model cfg =
     initialize
       \<lparr> config = cfg, label_encoder = None, target_dim = None, load_from_file = None,
         is_built = False, is_trained = False, require_lm = False, train = None, sess = False,
         target_loss_defined = False, lm_predict_op_defined = False, graph = None,
         graph_log = [], weights = NoWeights \<rparr>"

text \<open>
  \<^verbatim>\<open>_construct_graph\<close> (lines 410 to 527), as far as the heads are concerned: the coefficient
  is forced to 1.0 without a target dimensionality, and the language-model head is compiled
  when training with a positive coefficient or when \<^verbatim>\<open>require_lm\<close> is set.  The task head is
  built when there is a target dimensionality.
\<close>

definition construct_graph :: "model \<Rightarrow> nat \<Rightarrow> nat option \<Rightarrow> bool \<Rightarrow> model" where
  "construct_graph st n_updates_total tdim trn =
     (let coef = (if tdim = None then 1 else lm_loss_coef (config st));
          compile_lm = ((trn \<and> coef > 0) \<or> require_lm st);
          g = \<lparr> g_train = trn, g_target_dim = tdim, g_lm_loss_coef = coef,
                g_compile_lm = compile_lm \<rparr>
      in st\<lparr> train := Some trn,
             lm_predict_op_defined := (lm_predict_op_defined st \<or> compile_lm),
             target_loss_defined := (target_loss_defined st \<or> tdim \<noteq> None),
             graph := Some g,
             graph_log := graph_log st @ [g] \<rparr>)"

text \<open>
  \<^verbatim>\<open>_build_model\<close> (lines 529 to 560).  The base model is loaded first; an exception there
  leaves the object as it was.  Then the graph is rebuilt if needed, the session is created,
  the saved weights are restored (\<^verbatim>\<open>_load_finetuned_model\<close>) or the pretrained ones assigned
  (\<^verbatim>\<open>_init_from_pretrained\<close>), and \<^verbatim>\<open>target_dim\<close> is stored.
\<close>

definition build_model :: "model \<Rightarrow> weights_env \<Rightarrow> nat \<Rightarrow> nat option \<Rightarrow> bool \<Rightarrow> (error + unit) \<times> model" where
  "build_model st wenv n_updates_total tdim trn =
     (case load_base_model (config st) wenv of
        Inl e \<Rightarrow> (Inl e, st)
      | Inr pre_trained_weights \<Rightarrow>
          (let st1 = (if \<not> is_trained st \<or> Some trn \<noteq> train st \<or> target_dim st \<noteq> tdim
                      then construct_graph st n_updates_total tdim trn else st);
               st2 = st1\<lparr>sess := True\<rparr>;
               st3 = (case load_from_file st2 of
                        Some path \<Rightarrow>
                          st2\<lparr>weights := RestoredFrom path, load_from_file := None,
                              is_trained := True\<rparr>
                      | None \<Rightarrow>
                          if \<not> is_trained st2 then st2\<lparr>weights := Pretrained\<rparr> else st2)
           in (Inr (), st3\<lparr>target_dim := tdim, is_built := True\<rparr>)))"

section \<open>Training, inference and generation\<close>

text \<open>
  The collaborators outside \<^verbatim>\<open>base.py\<close>, as parameters of the model: the pretrained weights,
  the session's losses during a run, the tokenizer (\<^verbatim>\<open>vocab_size\<close>, \<^verbatim>\<open>_encode\<close>, the ids of
  \<^verbatim>\<open>_start_\<close> and \<^verbatim>\<open>_classify_\<close>, \<^verbatim>\<open>decode\<close>), the constant \<^verbatim>\<open>PAD_TOKEN\<close>, the subclass's target
  encoder (\<^verbatim>\<open>_target_encoder\<close>, \<^verbatim>\<open>fit_transform\<close>, \<^verbatim>\<open>transform\<close>), \<^verbatim>\<open>train_test_split\<close>, the
  outputs of the prediction ops, \<^verbatim>\<open>os.path.abspath\<close>, and the language model:
  \<open>e_lm_sample env i x\<close> is the array that \<^verbatim>\<open>sess.run(self.lm_predict_op, \<dots>)\<close> returns for the
  input \<open>x\<close> in loop iteration \<open>i\<close> of \<^verbatim>\<open>generate_text\<close> (sampling is random, so the result may
  differ between iterations).
\<close>

record environment =
  e_weights :: weights_env
  e_run :: run_env
  e_vocab_size :: int
  e_pad_token :: string
  e_target_encoder :: label_encoder
  e_split :: "nat list \<Rightarrow> nat list \<times> nat list"
  e_fit :: "label_encoder \<Rightarrow> string list \<Rightarrow> label_encoder"
  e_transform :: "label_encoder \<Rightarrow> string list \<Rightarrow> real list list"
  e_predict :: "array_encoded_output \<Rightarrow> string list"
  e_predict_proba :: "array_encoded_output \<Rightarrow> real list list"
  e_features :: "array_encoded_output \<Rightarrow> real list list"
  e_encode :: "string \<Rightarrow> encoded_output"
  e_start :: int
  e_classify :: int
  e_lm_sample :: "nat \<Rightarrow> array_encoded_output \<Rightarrow> int list"
  e_decode :: "int list \<Rightarrow> string"
  e_abspath :: "string \<Rightarrow> string"

text \<open>Python's \<^verbatim>\<open>x or d\<close> for an optional number: \<open>d\<close> when \<open>x\<close> is \<^verbatim>\<open>None\<close> or 0.\<close>

definition py_or :: "nat option \<Rightarrow> nat \<Rightarrow> nat" where
  "py_or x d = (case x of None \<Rightarrow> d | Some n \<Rightarrow> if n = 0 then d else n)"

text \<open>
  The number of examples of a batch (lines 173 to 174): the batch size, which defaults to the
  configured one, times the number of devices, at least one.
\<close>

definition n_batch_train :: "config \<Rightarrow> nat option \<Rightarrow> nat" where
  "n_batch_train cfg bs = py_or bs (batch_size cfg) * max (length (visible_gpus cfg)) 1"

text \<open>numpy's \<^verbatim>\<open>Y[idxs]\<close> for a list of indices.\<close>

definition np_take :: "'a list \<Rightarrow> nat list \<Rightarrow> error + 'a list" where
  "np_take xs idxs = collect (map (py_index xs) idxs)"

text \<open>
  What a call of \<^verbatim>\<open>_training_loop\<close> computed: the targets of the two partitions, the target
  dimensionality and the number of updates given to \<^verbatim>\<open>_build_model\<close>, and the loop variables
  at the end.
\<close>

record training_run =
  train_Y :: "real list list"
  val_Y :: "real list list"
  run_target_dim :: "nat option"
  run_n_updates_total :: nat
  final_vars :: loop_vars

text \<open>
  Lines 162 to 171: without labels every example gets an empty target and the target
  dimensionality is \<^verbatim>\<open>None\<close>; with labels the encoder is fitted on the training partition.
\<close>

definition encode_targets ::
  "model \<Rightarrow> environment \<Rightarrow> string list option \<Rightarrow> nat list \<Rightarrow> nat list
   \<Rightarrow> (error + real list list \<times> real list list \<times> nat option) \<times> model" where
  "encode_targets st env Y train_idxs val_idxs =
     (case Y of
        None \<Rightarrow>
          (Inr (replicate (length train_idxs) [], replicate (length val_idxs) [], None), st)
      | Some ys \<Rightarrow>
          (case np_take ys train_idxs of
             Inl e \<Rightarrow> (Inl e, st)
           | Inr ytr \<Rightarrow>
               (let le = e_fit env (e_target_encoder env) ytr;
                    st1 = st\<lparr>label_encoder := Some le\<rparr>
                in case np_take ys val_idxs of
                     Inl e \<Rightarrow> (Inl e, st1)
                   | Inr yv \<Rightarrow>
                       (Inr (e_transform env le ytr, e_transform env le yv, le_target_dim le),
                        st1))))"

text \<open>
  \<^verbatim>\<open>_training_loop\<close> (lines 156 to 257).  The integer division by \<^verbatim>\<open>n_batch_train\<close> raises
  \<^verbatim>\<open>ZeroDivisionError\<close> for a zero batch size.  The checkpoints that the loop writes are
  recorded in \<open>saved_at\<close>; a failure of \<^verbatim>\<open>save\<close> inside the loop is not modelled.
\<close>

definition training_loop ::
  "model \<Rightarrow> environment \<Rightarrow> array_encoded_output \<Rightarrow> string list option \<Rightarrow> nat option
   \<Rightarrow> (error + training_run) \<times> model" where
  "training_loop st env arr_encoded Y bs =
     (let st1 = st\<lparr>label_encoder := Some (e_target_encoder env)\<rparr>;
          idxs = [0..<length (aeo_token_ids arr_encoded)];
          (train_idxs, val_idxs) = e_split env idxs
      in case encode_targets st1 env Y train_idxs val_idxs of
           (Inl e, st2) \<Rightarrow> (Inl e, st2)
         | (Inr (trY, vY, tdim), st2) \<Rightarrow>
             (let n_batch = n_batch_train (config st2) bs
              in if n_batch = 0 then (Inl ZeroDivisionError, st2)
                 else
                   (let nut = (length train_idxs div n_batch) * n_epochs (config st2)
                    in case build_model st2 (e_weights env) nut tdim True of
                         (Inl e, st3) \<Rightarrow> (Inl e, st3)
                       | (Inr _, st3) \<Rightarrow>
                           (let st4 = st3\<lparr>is_trained := True\<rparr>
                            in case training_epochs (config st4) (e_run env)
                                      (target_loss_defined st4) of
                                 Inl e \<Rightarrow> (Inl e, st4)
                               | Inr lv \<Rightarrow>
                                   (Inr \<lparr> train_Y = trY, val_Y = vY, run_target_dim = tdim,
                                          run_n_updates_total = nut, final_vars = lv \<rparr>,
                                    st4\<lparr>weights := Finetuned\<rparr>)))))"

text \<open>
  \<^verbatim>\<open>finetune\<close> (lines 146 to 154).  \<open>enc\<close> is what the tokenizer's \<^verbatim>\<open>encode_multi_input\<close>
  returns for the inputs; \<^verbatim>\<open>_text_to_ids\<close> turns it into arrays.
\<close>

definition finetune ::
  "model \<Rightarrow> environment \<Rightarrow> encoded_output \<Rightarrow> string list option \<Rightarrow> nat option
   \<Rightarrow> (error + training_run) \<times> model" where
  "finetune st env enc Y bs =
     (case array_format (config st) (e_vocab_size env) (e_pad_token env) enc of
        Inl e \<Rightarrow> (Inl e, st)
      | Inr arr_encoded \<Rightarrow> training_loop st env arr_encoded Y bs)"

text \<open>
  \<^verbatim>\<open>_infer_prep\<close> (lines 347 to 353): the inputs are encoded, then the graph is built in eval
  mode for the current target dimensionality.
\<close>

definition infer_prep ::
  "model \<Rightarrow> environment \<Rightarrow> encoded_output \<Rightarrow> (error + array_encoded_output) \<times> model" where
  "infer_prep st env enc =
     (case array_format (config st) (e_vocab_size env) (e_pad_token env) enc of
        Inl e \<Rightarrow> (Inl e, st)
      | Inr arr_encoded \<Rightarrow>
          (case build_model st (e_weights env) 0 (target_dim st) False of
             (Inl e, st1) \<Rightarrow> (Inl e, st1)
           | (Inr _, st1) \<Rightarrow> (Inr arr_encoded, st1)))"

text \<open>
  \<^verbatim>\<open>predict\<close>, \<^verbatim>\<open>predict_proba\<close> and \<^verbatim>\<open>featurize\<close>.  \<^verbatim>\<open>np.concatenate\<close> of no batch at all is a
  \<^verbatim>\<open>ValueError\<close>; reading an attribute of a label encoder that is \<^verbatim>\<open>None\<close> is an
  \<^verbatim>\<open>AttributeError\<close>.
\<close>

definition predict ::
  "model \<Rightarrow> environment \<Rightarrow> encoded_output \<Rightarrow> (error + string list) \<times> model" where
  "predict st env enc =
     (case infer_prep st env enc of
        (Inl e, st1) \<Rightarrow> (Inl e, st1)
      | (Inr arr_encoded, st1) \<Rightarrow>
          if aeo_token_ids arr_encoded = [] then (Inl ValueError, st1)
          else (case label_encoder st1 of
                  None \<Rightarrow> (Inl AttributeError, st1)
                | Some le \<Rightarrow> (Inr (e_predict env arr_encoded), st1)))"

definition predict_proba ::
  "model \<Rightarrow> environment \<Rightarrow> encoded_output \<Rightarrow> (error + (string \<times> real) list list) \<times> model" where
  "predict_proba st env enc =
     (case infer_prep st env enc of
        (Inl e, st1) \<Rightarrow> (Inl e, st1)
      | (Inr arr_encoded, st1) \<Rightarrow>
          (case label_encoder st1 of
             None \<Rightarrow> (Inl AttributeError, st1)
           | Some le \<Rightarrow>
               (Inr (map (\<lambda>probas. zip (le_classes le) probas)
                       (e_predict_proba env arr_encoded)), st1)))"

definition featurize ::
  "model \<Rightarrow> environment \<Rightarrow> encoded_output \<Rightarrow> (error + real list list) \<times> model" where
  "featurize st env enc =
     (case infer_prep st env enc of
        (Inl e, st1) \<Rightarrow> (Inl e, st1)
      | (Inr arr_encoded, st1) \<Rightarrow>
          if aeo_token_ids arr_encoded = [] then (Inl ValueError, st1)
          else (Inr (e_features env arr_encoded), st1))"

subsection \<open>\<^verbatim>\<open>generate_text\<close> (lines 588 to 610)\<close>

text \<open>
  The decoding loop over \<open>i\<close> in the given range.  Its state is the token list \<^verbatim>\<open>string\<close>; the
  list of the model inputs fed so far and the number of iterations started are ghosts.  In
  every iteration the input is \<^verbatim>\<open>self._array_format(encoded)\<close>, where \<^verbatim>\<open>encoded\<close> is the encoding
  of the seed text computed before the loop; the sampled token \<^verbatim>\<open>class_idx[i]\<close> is appended to
  \<^verbatim>\<open>string\<close>, and the loop stops at the end-of-sequence token.  Running a fetch that is \<^verbatim>\<open>None\<close>
  is a \<^verbatim>\<open>TypeError\<close>.
\<close>

fun decode_loop ::
  "config \<Rightarrow> environment \<Rightarrow> bool \<Rightarrow> encoded_output \<Rightarrow> nat list \<Rightarrow> int list
   \<Rightarrow> array_encoded_output list \<Rightarrow> nat
   \<Rightarrow> error option \<times> int list \<times> array_encoded_output list \<times> nat" where
  "decode_loop cfg env lm_defined encoded [] string fed n = (None, string, fed, n)"
| "decode_loop cfg env lm_defined encoded (i # is) string fed n =
     (case array_format cfg (e_vocab_size env) (e_pad_token env) encoded of
        Inl e \<Rightarrow> (Some e, string, fed, Suc n)
      | Inr arr_encoded \<Rightarrow>
          if \<not> lm_defined then (Some TypeError, string, fed, Suc n)
          else (case py_index (e_lm_sample env i arr_encoded) i of
                  Inl e \<Rightarrow> (Some e, string, fed @ [arr_encoded], Suc n)
                | Inr tok \<Rightarrow>
                    if tok = e_classify env
                    then (None, string @ [tok], fed @ [arr_encoded], Suc n)
                    else decode_loop cfg env lm_defined encoded is (string @ [tok])
                           (fed @ [arr_encoded]) (Suc n)))"

text \<open>
  The result of \<^verbatim>\<open>generate_text\<close>: the returned text or the exception, the token list
  \<^verbatim>\<open>string\<close> at that point, and the ghosts: the model inputs of the forward passes and the
  number of loop iterations.
\<close>

record generation =
  gen_outcome :: "error + string"
  gen_string :: "int list"
  gen_inputs :: "array_encoded_output list"
  gen_iterations :: nat

definition generate_text ::
  "model \<Rightarrow> environment \<Rightarrow> string \<Rightarrow> nat option \<Rightarrow> generation \<times> model" where
  "generate_text st env seed_text maxlen =
     (let st1 = st\<lparr>require_lm := True\<rparr>;
          encoded = e_encode env seed_text
      in case build_model st1 (e_weights env) 0 (target_dim st1) False of
           (Inl e, st2) \<Rightarrow>
             (\<lparr> gen_outcome = Inl e, gen_string = [], gen_inputs = [], gen_iterations = 0 \<rparr>,
              st2)
         | (Inr _, st2) \<Rightarrow>
             (case py_index (eo_token_ids encoded) 0 of
                Inl e \<Rightarrow>
                  (\<lparr> gen_outcome = Inl e, gen_string = [], gen_inputs = [],
                     gen_iterations = 0 \<rparr>, st2)
              | Inr seed_ids \<Rightarrow>
                  (let string = e_start env # seed_ids;
                       stop = py_or maxlen (max_length (config st2)) - 1;
                       (err, string', fed, n) =
                          decode_loop (config st2) env (lm_predict_op_defined st2) encoded
                            [length (eo_token_ids encoded)..<stop] string [] 0
                   in (\<lparr> gen_outcome = (case err of
                                           Some e \<Rightarrow> Inl e
                                         | None \<Rightarrow> Inr (e_decode env string')),
                          gen_string = string', gen_inputs = fed, gen_iterations = n \<rparr>,
                       st2))))"

section \<open>The model persistence manager (\<^verbatim>\<open>__getstate__\<close>, \<^verbatim>\<open>save\<close>, \<^verbatim>\<open>load\<close>)\<close>

text \<open>The pickled state: the fields that \<^verbatim>\<open>__getstate__\<close> keeps.\<close>

record pickled_state =
  p_label_encoder :: "label_encoder option"
  p_target_dim :: "nat option"
  p_load_from_file :: "string option"
  p_config :: config

definition getstate :: "model \<Rightarrow> pickled_state" where
  "getstate st =
     \<lparr> p_label_encoder = label_encoder st, p_target_dim = target_dim st,
       p_load_from_file = load_from_file st, p_config = config st \<rparr>"

text \<open>
  The file system, as far as \<^verbatim>\<open>save\<close> and \<^verbatim>\<open>load\<close> use it: what exists at an absolute path, and,
  for a saved-model directory, the checkpoint of the graph variables and the pickle file.
\<close>

datatype fs_entry = Directory | RegularFile

record filesystem =
  fs_entries :: "string \<Rightarrow> fs_entry option"
  fs_checkpoints :: "string \<Rightarrow> weight_source option"
  fs_pickles :: "string \<Rightarrow> pickled_state option"

text \<open>
  \<^verbatim>\<open>save\<close> (lines 670 to 702).  Nothing happens for the path \<^verbatim>\<open>None\<close>.  Otherwise
  \<^verbatim>\<open>_load_from_file\<close> is set to the absolute path, a path that exists and is not a directory
  is a \<^verbatim>\<open>ValueError\<close> (raised with \<^verbatim>\<open>_load_from_file\<close> still set), a missing directory is
  created, the variables and the pickle of the object are written, and \<^verbatim>\<open>_load_from_file\<close> is
  set back to \<^verbatim>\<open>False\<close>.  Failures of TensorFlow's saver are not modelled.
\<close>

definition save ::
  "model \<Rightarrow> environment \<Rightarrow> string option \<Rightarrow> filesystem \<Rightarrow> (error + unit) \<times> model \<times> filesystem" where
  "save st env path fs =
     (case path of
        None \<Rightarrow> (Inr (), st, fs)
      | Some p \<Rightarrow>
          (let path' = e_abspath env p;
               st1 = st\<lparr>load_from_file := Some path'\<rparr>
           in if fs_entries fs path' = Some RegularFile then (Inl ValueError, st1, fs)
              else
                (let fs1 = fs\<lparr>fs_entries := (fs_entries fs)(path' \<mapsto> Directory)\<rparr>;
                     fs2 = fs1\<lparr>fs_checkpoints := (fs_checkpoints fs1)(path' \<mapsto> weights st1)\<rparr>;
                     fs3 = fs2\<lparr>fs_pickles := (fs_pickles fs2)(path' \<mapsto> getstate st1)\<rparr>
                 in (Inr (), st1\<lparr>load_from_file := None\<rparr>, fs3))))"

text \<open>
  \<^verbatim>\<open>load\<close> (lines 704 to 715): a new object with the pickled fields, on which \<^verbatim>\<open>_initialize\<close>
  is run.  A missing pickle file is a \<^verbatim>\<open>FileNotFoundError\<close>.
\<close>

definition load :: "environment \<Rightarrow> filesystem \<Rightarrow> string \<Rightarrow> error + model" where
  "load env fs path =
     (case fs_pickles fs (e_abspath env path) of
        None \<Rightarrow> Inl FileNotFoundError
      | Some p \<Rightarrow>
          Inr (initialize
                 \<lparr> config = p_config p, label_encoder = p_label_encoder p,
                   target_dim = p_target_dim p, load_from_file = p_load_from_file p,
                   is_built = False, is_trained = False, require_lm = False, train = None,
                   sess = False, target_loss_defined = False, lm_predict_op_defined = False,
                   graph = None, graph_log = [], weights = NoWeights \<rparr>))"

section \<open>Sequences of operations on one object\<close>

text \<open>The public operations that act on an existing object, with their arguments.\<close>

datatype operation =
    Finetune encoded_output "string list option" "nat option"
  | Predict encoded_output
  | PredictProba encoded_output
  | Featurize encoded_output
  | GenerateText string "nat option"
  | Save "string option"

text \<open>The object and the file system after an operation, whether it returned or raised.\<close>

definition apply_operation ::
  "environment \<Rightarrow> operation \<Rightarrow> model \<times> filesystem \<Rightarrow> model \<times> filesystem" where
  "apply_operation env op s =
     (case s of (st, fs) \<Rightarrow>
        (case op of
           Finetune enc Y bs \<Rightarrow> (snd (finetune st env enc Y bs), fs)
         | Predict enc \<Rightarrow> (snd (predict st env enc), fs)
         | PredictProba enc \<Rightarrow> (snd (predict_proba st env enc), fs)
         | Featurize enc \<Rightarrow> (snd (featurize st env enc), fs)
         | GenerateText seed maxlen \<Rightarrow> (snd (generate_text st env seed maxlen), fs)
         | Save path \<Rightarrow> snd (save st env path fs)))"

definition run_operations ::
  "environment \<Rightarrow> operation list \<Rightarrow> model \<times> filesystem \<Rightarrow> model \<times> filesystem" where
  "run_operations env ops s = fold (apply_operation env) ops s"

text \<open>
  The relation between an object and a later state of it that the invariant of
  \<^verbatim>\<open>require_lm\<close> needs: the flag is set in the later state, and every graph constructed in
  between has the language-model head compiled.
\<close>

definition lm_extends :: "model \<Rightarrow> model \<Rightarrow> bool" where
  "lm_extends st st' =
     (require_lm st' \<and> (\<exists>gs. graph_log st' = graph_log st @ gs \<and> list_all g_compile_lm gs))"

text \<open>
  The invariant that ties the graph built last to the fields of the object: there is a graph
  as soon as the model counts as trained; a graph with no task head uses the coefficient 1.0
  and was built for the mode and the target dimensionality that the object records.
\<close>

definition graph_consistent :: "model \<Rightarrow> bool" where
  "graph_consistent st =
     (case graph st of
        None \<Rightarrow> \<not> is_trained st
      | Some g \<Rightarrow>
          (g_target_dim g = None \<longrightarrow> g_lm_loss_coef g = 1)
        \<and> train st = Some (g_train g)
        \<and> g_target_dim g = target_dim st)"



text \<open>Concrete inputs used to evaluate the definitions.\<close>

definition example_config :: config where
  "example_config =
     \<lparr> max_length = 5, batch_size = 2, n_epochs = 1, val_interval = 1, val_window_size = 2,
       rolling_avg_decay = 0, visible_gpus = [], lm_loss_coef = 1 / 2, save_best_model = True,
       autosave_path = Some ''out'', interpolate_pos_embed = False, n_embed = 2,
       weight_stddev = 1 \<rparr>"

definition example_encoded :: encoded_output where
  "example_encoded =
     \<lparr> eo_token_ids = [[7, 8, 9], [4]], eo_tokens = [], eo_labels = None, eo_char_locs = [] \<rparr>"

definition example_array :: array_encoded_output where
  "example_array =
     \<lparr> aeo_token_ids = [[(7, 100), (8, 101), (9, 102), (0, 103), (0, 104)],
                        [(4, 100), (0, 101), (0, 102), (0, 103), (0, 104)]],
       aeo_tokens = [], aeo_labels = None, aeo_char_locs = [],
       aeo_mask = [[0, 1, 1, 0, 0], [0, 0, 0, 0, 0]] \<rparr>"




definition window_env :: run_env where
  "window_env =
     \<lparr> train_batches = 5,
       val_costs = (\<lambda>g. if g = 1 then [1, 2] else if g = 2 then [1] else if g = 3 then [5] else [0]),
       train_cost = (\<lambda>g. 1) \<rparr>"

definition weights_example :: weights_env where
  "weights_example =
     \<lparr> stored_params = [replicate 512 [1, 1], [[7, 8], [9, 10]], [[5]]],
       interpolate = (\<lambda>p n. replicate n [0, 0]),
       randn = (\<lambda>i j. real i + real j),
       n_special_tokens = 3 \<rparr>"


definition example_env :: environment where
  "example_env =
     \<lparr> e_weights = weights_example,
       e_run = window_env,
       e_vocab_size = 100,
       e_pad_token = ''<PAD>'',
       e_target_encoder = \<lparr> le_classes = [], le_target_dim = None \<rparr>,
       e_split = (\<lambda>idxs. (butlast idxs, drop (length idxs - 1) idxs)),
       e_fit = (\<lambda>le ys. \<lparr> le_classes = remdups ys, le_target_dim = Some (length (remdups ys)) \<rparr>),
       e_transform = (\<lambda>le ys. map (\<lambda>y. map (\<lambda>c. if c = y then 1 else 0) (le_classes le)) ys),
       e_predict = (\<lambda>arr. map (\<lambda>r. ''x'') (aeo_token_ids arr)),
       e_predict_proba = (\<lambda>arr. map (\<lambda>r. [1 / 2, 1 / 2]) (aeo_token_ids arr)),
       e_features = (\<lambda>arr. map (\<lambda>r. [0]) (aeo_token_ids arr)),
       e_encode = (\<lambda>text. \<lparr> eo_token_ids = [map (\<lambda>c. int (of_char c)) text], eo_tokens = [],
                               eo_labels = None, eo_char_locs = [] \<rparr>),
       e_start = 1000,
       e_classify = 1002,
       e_lm_sample = (\<lambda>i arr. map (\<lambda>j. 40 + int i + int j) [0..<4]),
       e_decode = (\<lambda>ids. concat (map (\<lambda>t. if t = 1000 then ''_start_'' else ''w'') ids)),
       e_abspath = (\<lambda>p. ''/home/'' @ p) \<rparr>"

definition empty_fs :: filesystem where
  "empty_fs =
     \<lparr> fs_entries = (\<lambda>p. None), fs_checkpoints = (\<lambda>p. None), fs_pickles = (\<lambda>p. None) \<rparr>"


definition seed_array :: array_encoded_output where
  "seed_array =
     \<lparr> aeo_token_ids = [[(104, 100), (105, 101), (0, 102), (0, 103), (0, 104)]],
       aeo_tokens = [], aeo_labels = None, aeo_char_locs = [],
       aeo_mask = [[0, 1, 0, 0, 0]] \<rparr>"

section \<open>Properties of the array encoder adapter\<close>

lemma collect_Inr_length: "collect rs = Inr xs \<Longrightarrow> length xs = length rs"
proof (induction rs arbitrary: xs)
  case Nil
  then show ?case by simp
next
  case (Cons r rs)
  then show ?case
    by (cases r) (auto split: sum.splits)
qed

lemma collect_Inr_nth: "collect rs = Inr xs \<Longrightarrow> i < length rs \<Longrightarrow> rs ! i = Inr (xs ! i)"
proof (induction rs arbitrary: xs i)
  case Nil
  then show ?case by simp
next
  case (Cons r rs)
  then show ?case
    by (cases r; cases i) (auto split: sum.splits)
qed

lemma length_fold_update: "length (fold (\<lambda>j r. r[j := v]) js row) = length row"
  by (induction js arbitrary: row) auto

lemma nth_fold_update:
  "k < length row \<Longrightarrow> fold (\<lambda>j r. r[j := v]) js row ! k = (if k \<in> set js then v else row ! k)"
  by (induction js arbitrary: row) (auto simp: length_fold_update nth_list_update)

lemma length_np_fill_slice: "length (np_fill_slice row lo hi v) = length row"
  by (simp add: np_fill_slice_def length_fold_update)

lemma nth_np_fill_slice:
  "k < length row \<Longrightarrow>
   np_fill_slice row lo hi v ! k = (if lo \<le> k \<and> k < hi then v else row ! k)"
  by (auto simp: np_fill_slice_def nth_fold_update)

lemma format_example_mask:
  "format_example maxlen pad enc i = Inr r \<Longrightarrow>
   fst (snd r) = np_fill_slice (replicate maxlen 0) 1 (length (eo_token_ids enc ! i)) 1"
  by (auto simp: format_example_def Let_def split: sum.splits option.splits if_splits)

lemma array_format_mask_row:
  assumes "array_format cfg vocab_size pad enc = Inr out" and "i < length (eo_token_ids enc)"
  shows "aeo_mask out ! i =
         np_fill_slice (replicate (max_length cfg) 0) 1 (length (eo_token_ids enc ! i)) 1"
proof -
  let ?rs = "map (format_example (max_length cfg) pad enc) [0..<length (eo_token_ids enc)]"
  from assms(1) obtain rows where rows: "collect ?rs = Inr rows"
    and out: "aeo_mask out = map (\<lambda>r. fst (snd r)) rows"
    by (auto simp: array_format_def Let_def split: sum.splits)
  have len: "length rows = length (eo_token_ids enc)"
    using collect_Inr_length [OF rows] by simp
  have "?rs ! i = Inr (rows ! i)"
    using collect_Inr_nth [OF rows] assms(2) by simp
  then have "format_example (max_length cfg) pad enc i = Inr (rows ! i)"
    using assms(2) by simp
  then show ?thesis
    using format_example_mask out len assms(2) by simp
qed

text \<open>
  Claim C6.  For an encoded example of sequence length \<open>L\<close> with \<open>1 \<le> L \<le> max_length\<close>, the
  mask row that \<^verbatim>\<open>_array_format\<close> produces has \<open>max_length\<close> cells, is 0 at index 0, 1 at every
  index \<open>j\<close> with \<open>1 \<le> j < L\<close>, and 0 at every index \<open>j\<close> with \<open>L \<le> j < max_length\<close>.
\<close>

theorem array_format_mask:
  assumes "array_format cfg vocab_size pad enc = Inr out"
    and "i < length (eo_token_ids enc)"
    and "L = length (eo_token_ids enc ! i)"
    and "1 \<le> L" and "L \<le> max_length cfg"
  shows "length (aeo_mask out ! i) = max_length cfg
       \<and> aeo_mask out ! i ! 0 = 0
       \<and> (\<forall>j. 1 \<le> j \<and> j < L \<longrightarrow> aeo_mask out ! i ! j = 1)
       \<and> (\<forall>j. L \<le> j \<and> j < max_length cfg \<longrightarrow> aeo_mask out ! i ! j = 0)"
proof -
  have row: "aeo_mask out ! i = np_fill_slice (replicate (max_length cfg) 0) 1 L 1"
    using array_format_mask_row [OF assms(1,2)] assms(3) by simp
  show ?thesis
    using assms(4,5) by (auto simp: row length_np_fill_slice nth_np_fill_slice)
qed

theorem array_format_mask_witness:
  "array_format example_config 100 ''<PAD>'' example_encoded = Inr example_array
   \<and> length (eo_token_ids example_encoded ! 0) = 3
   \<and> length (aeo_mask example_array ! 0) = 5
   \<and> aeo_mask example_array ! 0 ! 0 = 0
   \<and> aeo_mask example_array ! 0 ! 1 = 1
   \<and> aeo_mask example_array ! 0 ! 2 = 1
   \<and> aeo_mask example_array ! 0 ! 3 = 0
   \<and> aeo_mask example_array ! 0 ! 4 = 0"
proof -
  have run: "array_format example_config 100 ''<PAD>'' example_encoded = Inr example_array"
    by code_simp
  have i: "0 < length (eo_token_ids example_encoded)"
    by (simp add: example_encoded_def)
  have L: "3 = length (eo_token_ids example_encoded ! 0)"
    by (simp add: example_encoded_def)
  have lo: "1 \<le> (3::nat)" by simp
  have hi: "3 \<le> max_length example_config"
    by (simp add: example_config_def)
  note m = array_format_mask [OF run i L lo hi]
  from m have "aeo_mask example_array ! 0 ! 1 = 1" "aeo_mask example_array ! 0 ! 2 = 1"
    by simp_all
  moreover from m hi have "aeo_mask example_array ! 0 ! 3 = 0" "aeo_mask example_array ! 0 ! 4 = 0"
    by (simp_all add: example_config_def)
  moreover from m have "length (aeo_mask example_array ! 0) = 5" "aeo_mask example_array ! 0 ! 0 = 0"
    by (simp_all add: example_config_def)
  ultimately show ?thesis
    using run L by simp
qed

section \<open>Properties of the rolling validation window\<close>






































section \<open>Properties of the pretrained weight loader\<close>


lemma nth_special_embed:
  "i < n_special_tokens wenv \<Longrightarrow> length (special_embed cfg wenv ! i) = n_embed cfg"
  by (simp add: special_embed_def)













section \<open>Properties of the model persistence manager\<close>





section \<open>The language-model flag across operations\<close>

lemma lm_extends_refl: "require_lm st \<Longrightarrow> lm_extends st st"
  by (simp add: lm_extends_def)

lemma lm_extends_trans: "lm_extends a b \<Longrightarrow> lm_extends b c \<Longrightarrow> lm_extends a c"
  by (auto simp: lm_extends_def)

lemma lm_extends_same:
  "lm_extends a b \<Longrightarrow> require_lm c = require_lm b \<Longrightarrow> graph_log c = graph_log b
   \<Longrightarrow> lm_extends a c"
  by (simp add: lm_extends_def)

lemma lm_extends_start:
  "require_lm a = require_lm b \<Longrightarrow> graph_log a = graph_log b \<Longrightarrow> lm_extends b c
   \<Longrightarrow> lm_extends a c"
  by (simp add: lm_extends_def)

lemma construct_graph_lm:
  "require_lm st \<Longrightarrow> lm_extends st (construct_graph st n tdim trn)"
  by (simp add: construct_graph_def lm_extends_def Let_def)

lemma build_model_lm:
  "require_lm st \<Longrightarrow> lm_extends st (snd (build_model st wenv n tdim trn))"
  by (auto simp: build_model_def construct_graph_def lm_extends_def Let_def
      split: sum.splits option.splits)

lemma encode_targets_lm:
  "require_lm (snd (encode_targets st env Y tr va)) = require_lm st"
  "graph_log (snd (encode_targets st env Y tr va)) = graph_log st"
  by (auto simp: encode_targets_def Let_def split: option.splits sum.splits)

lemma after_build:
  assumes "lm_extends st (snd B)"
  shows "lm_extends st
           (snd (case B of
                   (Inl e, st3) \<Rightarrow> (Inl e, st3)
                 | (Inr x, st3) \<Rightarrow>
                     (let st4 = st3\<lparr>is_trained := True\<rparr>
                      in case T st4 of
                           Inl e \<Rightarrow> (Inl e, st4)
                         | Inr lv \<Rightarrow> (Inr (R lv), st4\<lparr>weights := Finetuned\<rparr>))))"
  using assms by (cases B) (auto simp: lm_extends_def Let_def split: sum.splits)

lemma training_loop_lm:
  assumes "require_lm st"
  shows "lm_extends st (snd (training_loop st env arr Y bs))"
proof -
  let ?st1 = "st\<lparr>label_encoder := Some (e_target_encoder env)\<rparr>"
  obtain tr va where sp: "e_split env [0..<length (aeo_token_ids arr)] = (tr, va)"
    by (cases "e_split env [0..<length (aeo_token_ids arr)]")
  obtain r st2 where et: "encode_targets ?st1 env Y tr va = (r, st2)"
    by (cases "encode_targets ?st1 env Y tr va")
  have st2: "require_lm st2" "graph_log st2 = graph_log st"
    using encode_targets_lm [of ?st1 env Y tr va] et assms by simp_all
  have base: "lm_extends st st2"
    using st2 by (simp add: lm_extends_def)
  show ?thesis
  proof (cases r)
    case (Inl e)
    then show ?thesis
      using base by (simp add: training_loop_def Let_def sp et)
  next
    case (Inr t)
    obtain trY vY tdim where t: "t = (trY, vY, tdim)" by (cases t)
    show ?thesis
    proof (cases "n_batch_train (config st2) bs = 0")
      case True
      then show ?thesis
        using base by (simp add: training_loop_def Let_def sp et Inr t)
    next
      case False
      have "lm_extends st (snd (build_model st2 (e_weights env) n tdim True))" for n
        using base build_model_lm [OF st2(1)] by (rule lm_extends_trans)
      then show ?thesis
        using False
        by (simp add: training_loop_def Let_def sp et Inr t after_build)
    qed
  qed
qed

lemma finetune_lm:
  "require_lm st \<Longrightarrow> lm_extends st (snd (finetune st env enc Y bs))"
  by (auto simp: finetune_def lm_extends_refl training_loop_lm split: sum.splits)

lemma infer_prep_lm:
  "require_lm st \<Longrightarrow> lm_extends st (snd (infer_prep st env enc))"
proof -
  assume r: "require_lm st"
  have "lm_extends st (snd (build_model st (e_weights env) 0 (target_dim st) False))"
    using r by (rule build_model_lm)
  then show ?thesis
    using r by (auto simp: infer_prep_def lm_extends_refl split: sum.splits prod.splits)
qed

lemma predict_lm:
  "require_lm st \<Longrightarrow> lm_extends st (snd (predict st env enc))"
  using infer_prep_lm [of st env enc]
  by (auto simp: predict_def split: sum.splits prod.splits option.splits)

lemma predict_proba_lm:
  "require_lm st \<Longrightarrow> lm_extends st (snd (predict_proba st env enc))"
  using infer_prep_lm [of st env enc]
  by (auto simp: predict_proba_def split: sum.splits prod.splits option.splits)

lemma featurize_lm:
  "require_lm st \<Longrightarrow> lm_extends st (snd (featurize st env enc))"
  using infer_prep_lm [of st env enc]
  by (auto simp: featurize_def split: sum.splits prod.splits option.splits)

lemma generate_text_state:
  "snd (generate_text st env seed maxlen) =
   snd (build_model (st\<lparr>require_lm := True\<rparr>) (e_weights env) 0 (target_dim st) False)"
  by (auto simp: generate_text_def Let_def split: sum.splits prod.splits)

lemma generate_text_require_lm: "require_lm (snd (generate_text st env seed maxlen))"
  using build_model_lm [of "st\<lparr>require_lm := True\<rparr>" "e_weights env" 0 "target_dim st" False]
  by (simp add: generate_text_state lm_extends_def)

lemma generate_text_lm:
  "require_lm st \<Longrightarrow> lm_extends st (snd (generate_text st env seed maxlen))"
  using build_model_lm [of "st\<lparr>require_lm := True\<rparr>" "e_weights env" 0 "target_dim st" False]
  by (simp add: generate_text_state lm_extends_def)

lemma save_lm:
  "require_lm st \<Longrightarrow> lm_extends st (fst (snd (save st env path fs)))"
  by (auto simp: save_def Let_def lm_extends_def split: option.splits)

lemma apply_operation_lm:
  "require_lm st \<Longrightarrow> lm_extends st (fst (apply_operation env op (st, fs)))"
  by (cases op)
    (simp_all add: apply_operation_def finetune_lm predict_lm predict_proba_lm featurize_lm
      generate_text_lm save_lm)

lemma run_operations_lm:
  "require_lm st \<Longrightarrow> lm_extends st (fst (run_operations env ops (st, fs)))"
proof (induction ops arbitrary: st fs)
  case Nil
  then show ?case by (simp add: run_operations_def lm_extends_refl)
next
  case (Cons op ops)
  obtain st1 fs1 where s1: "apply_operation env op (st, fs) = (st1, fs1)"
    by (cases "apply_operation env op (st, fs)")
  have e1: "lm_extends st st1"
    using apply_operation_lm [OF Cons.prems, of env op fs] s1 by simp
  then have "require_lm st1" by (simp add: lm_extends_def)
  then have "lm_extends st1 (fst (run_operations env ops (st1, fs1)))"
    by (rule Cons.IH)
  with e1 have "lm_extends st (fst (run_operations env ops (st1, fs1)))"
    by (rule lm_extends_trans)
  then show ?case
    by (simp add: run_operations_def s1)
qed

text \<open>
  Claim C9.  After a call of \<^verbatim>\<open>generate_text\<close> (whether it returned or raised) the flag
  \<^verbatim>\<open>require_lm\<close> is set; it is still set after any further sequence of operations on the
  object (\<^verbatim>\<open>finetune\<close>, \<^verbatim>\<open>predict\<close>, \<^verbatim>\<open>predict_proba\<close>, \<^verbatim>\<open>featurize\<close>, \<^verbatim>\<open>generate_text\<close>, \<^verbatim>\<open>save\<close>),
  and every graph that these operations construct has the language-model head compiled,
  whatever its mode and target dimensionality.  \<^verbatim>\<open>_initialize\<close> clears the flag, and a newly
  constructed or loaded object has it cleared.
\<close>

theorem require_lm_never_reset:
  fixes st env seed maxlen ops fs
  defines "st1 \<equiv> snd (generate_text st env seed maxlen)"
  defines "st2 \<equiv> fst (run_operations env ops (st1, fs))"
  shows "require_lm st1
       \<and> require_lm st2
       \<and> (\<exists>gs. graph_log st2 = graph_log st1 @ gs \<and> list_all g_compile_lm gs)
       \<and> require_lm (initialize st2) = False
       \<and> require_lm (new_model cfg) = False
       \<and> map_sum id require_lm (load env fs' path) \<noteq> Inr True"
proof -
  have 1: "require_lm st1"
    unfolding st1_def by (rule generate_text_require_lm)
  then have "lm_extends st1 st2"
    unfolding st2_def by (rule run_operations_lm)
  then have 2: "require_lm st2"
    and 3: "\<exists>gs. graph_log st2 = graph_log st1 @ gs \<and> list_all g_compile_lm gs"
    by (simp_all add: lm_extends_def)
  have 4: "require_lm (initialize st2) = False" "require_lm (new_model cfg) = False"
    by (simp_all add: initialize_def new_model_def)
  have 5: "map_sum id require_lm (load env fs' path) \<noteq> Inr True"
    by (simp add: load_def initialize_def split: option.splits)
  from 1 2 3 4 5 show ?thesis by blast
qed

theorem require_lm_never_reset_witness:
  "require_lm (snd (generate_text (new_model example_config) example_env ''hi'' None))
   \<and> require_lm (fst (run_operations example_env
         [Finetune example_encoded (Some [''a'', ''b'']) None, Predict example_encoded]
         (snd (generate_text (new_model example_config) example_env ''hi'' None), empty_fs)))
   \<and> map (\<lambda>g. (g_train g, g_target_dim g, g_compile_lm g))
        (graph_log (fst (run_operations example_env
           [Finetune example_encoded (Some [''a'', ''b'']) None, Predict example_encoded]
           (snd (generate_text (new_model example_config) example_env ''hi'' None), empty_fs))))
       = [(False, None, True), (True, Some 1, True), (False, Some 1, True)]"
proof -
  have "map (\<lambda>g. (g_train g, g_target_dim g, g_compile_lm g))
        (graph_log (fst (run_operations example_env
           [Finetune example_encoded (Some [''a'', ''b'']) None, Predict example_encoded]
           (snd (generate_text (new_model example_config) example_env ''hi'' None), empty_fs))))
       = [(False, None, True), (True, Some 1, True), (False, Some 1, True)]"
    by code_simp
  with require_lm_never_reset [of "new_model example_config" example_env "''hi''" None
      "[Finetune example_encoded (Some [''a'', ''b'']) None, Predict example_encoded]" empty_fs]
  show ?thesis by blast
qed

section \<open>Fine-tuning without labels\<close>


lemma graph_consistent_load: "load env fs path = Inr m \<Longrightarrow> graph_consistent m"
  by (auto simp: graph_consistent_def load_def initialize_def split: option.splits)

lemma build_model_consistent:
  "graph_consistent st \<Longrightarrow> graph_consistent (snd (build_model st wenv n tdim trn))"
  by (auto simp: build_model_def construct_graph_def graph_consistent_def Let_def
      split: sum.splits option.splits)










subsection \<open>The graph invariant holds in every reachable state\<close>

lemma after_build_consistent:
  assumes "graph_consistent (snd B)" and "\<And>u. fst B = Inr u \<Longrightarrow> graph (snd B) \<noteq> None"
  shows "graph_consistent
           (snd (case B of
                   (Inl e, st3) \<Rightarrow> (Inl e, st3)
                 | (Inr x, st3) \<Rightarrow>
                     (let st4 = st3\<lparr>is_trained := True\<rparr>
                      in case T st4 of
                           Inl e \<Rightarrow> (Inl e, st4)
                         | Inr lv \<Rightarrow> (Inr (R lv), st4\<lparr>weights := Finetuned\<rparr>))))"
  using assms
  by (cases B) (auto simp: graph_consistent_def Let_def split: sum.splits option.splits)

lemma build_model_graph_exists:
  "graph_consistent st \<Longrightarrow> fst (build_model st wenv n tdim trn) = Inr u
   \<Longrightarrow> graph (snd (build_model st wenv n tdim trn)) \<noteq> None"
  by (auto simp: build_model_def construct_graph_def graph_consistent_def Let_def
      split: sum.splits option.splits if_splits)

lemma encode_targets_consistent:
  "graph_consistent st \<Longrightarrow> graph_consistent (snd (encode_targets st env Y tr va))"
  by (auto simp: encode_targets_def graph_consistent_def Let_def split: option.splits sum.splits)

lemma training_loop_consistent:
  assumes "graph_consistent st"
  shows "graph_consistent (snd (training_loop st env arr Y bs))"
proof -
  let ?st1 = "st\<lparr>label_encoder := Some (e_target_encoder env)\<rparr>"
  obtain tr va where sp: "e_split env [0..<length (aeo_token_ids arr)] = (tr, va)"
    by (cases "e_split env [0..<length (aeo_token_ids arr)]")
  obtain r st2 where et: "encode_targets ?st1 env Y tr va = (r, st2)"
    by (cases "encode_targets ?st1 env Y tr va")
  have "graph_consistent ?st1"
    using assms by (auto simp: graph_consistent_def split: option.splits)
  then have st2: "graph_consistent st2"
    using encode_targets_consistent [of ?st1 env Y tr va] et by simp
  show ?thesis
  proof (cases r)
    case (Inl e)
    then show ?thesis
      using st2 by (simp add: training_loop_def Let_def sp et)
  next
    case (Inr t)
    obtain trY vY tdim where t: "t = (trY, vY, tdim)" by (cases t)
    show ?thesis
    proof (cases "n_batch_train (config st2) bs = 0")
      case True
      then show ?thesis
        using st2 by (simp add: training_loop_def Let_def sp et Inr t)
    next
      case False
      then show ?thesis
        using build_model_consistent [OF st2] build_model_graph_exists [OF st2]
        by (simp add: training_loop_def Let_def sp et Inr t after_build_consistent)
    qed
  qed
qed

lemma infer_prep_consistent:
  "graph_consistent st \<Longrightarrow> graph_consistent (snd (infer_prep st env enc))"
  using build_model_consistent [of st "e_weights env" 0 "target_dim st" False]
  by (auto simp: infer_prep_def split: sum.splits prod.splits)

lemma generate_text_consistent:
  "graph_consistent st \<Longrightarrow> graph_consistent (snd (generate_text st env seed maxlen))"
proof -
  assume "graph_consistent st"
  then have "graph_consistent (st\<lparr>require_lm := True\<rparr>)"
    by (auto simp: graph_consistent_def split: option.splits)
  then show ?thesis
    using build_model_consistent [of "st\<lparr>require_lm := True\<rparr>" "e_weights env" 0 "target_dim st" False]
    by (simp add: generate_text_state)
qed

lemma save_consistent:
  "graph_consistent st \<Longrightarrow> graph_consistent (fst (snd (save st env path fs)))"
  by (auto simp: save_def Let_def graph_consistent_def split: option.splits)

lemma apply_operation_consistent:
  assumes "graph_consistent st"
  shows "graph_consistent (fst (apply_operation env op (st, fs)))"
proof (cases op)
  case (Finetune enc Y bs)
  then show ?thesis
    using assms training_loop_consistent [OF assms]
    by (auto simp: apply_operation_def finetune_def split: sum.splits)
next
  case (Predict enc)
  then show ?thesis
    using infer_prep_consistent [OF assms, of env enc]
    by (auto simp: apply_operation_def predict_def split: sum.splits prod.splits option.splits)
next
  case (PredictProba enc)
  then show ?thesis
    using infer_prep_consistent [OF assms, of env enc]
    by (auto simp: apply_operation_def predict_proba_def split: sum.splits prod.splits option.splits)
next
  case (Featurize enc)
  then show ?thesis
    using infer_prep_consistent [OF assms, of env enc]
    by (auto simp: apply_operation_def featurize_def split: sum.splits prod.splits option.splits)
next
  case (GenerateText seed maxlen)
  then show ?thesis
    using generate_text_consistent [OF assms] by (simp add: apply_operation_def)
next
  case (Save path)
  then show ?thesis
    using save_consistent [OF assms] by (simp add: apply_operation_def)
qed

lemma run_operations_consistent:
  "graph_consistent st \<Longrightarrow> graph_consistent (fst (run_operations env ops (st, fs)))"
proof (induction ops arbitrary: st fs)
  case Nil
  then show ?case by (simp add: run_operations_def)
next
  case (Cons op ops)
  obtain st1 fs1 where s1: "apply_operation env op (st, fs) = (st1, fs1)"
    by (cases "apply_operation env op (st, fs)")
  have "graph_consistent st1"
    using apply_operation_consistent [OF Cons.prems, of env op fs] s1 by simp
  then have "graph_consistent (fst (run_operations env ops (st1, fs1)))"
    by (rule Cons.IH)
  then show ?case
    by (simp add: run_operations_def s1)
qed

end
